theory Spec2Isabelle
  imports Complex_Main "HOL-Library.Sublist"
begin

section \<open>The OTP server of index.js\<close>

text \<open>
  The server keeps one process-wide flag, \<open>isClientReady\<close>, and one MongoDB collection
  of OTP documents. The flag is written only by the handlers that index.js registers on
  the WhatsApp client; the collection is written only by the two HTTP handlers and by the
  backend's TTL index.

  The model covers the two route handlers, the client's event handlers and the schema.
  The rate limiter mounted in front of \<open>/send-otp\<close> runs before the handler and is not
  part of it. The operations of the database are taken to succeed: a failing one rejects
  the handler's promise, and no response is sent.
\<close>

subsection \<open>Client events and the readiness flag\<close>

text \<open>
  index.js registers a handler for four client events. The handler of \<open>qr\<close> only logs
  and renders the pairing code; the other three assign the flag.
\<close>

datatype client_event = Qr | Ready | AuthFailure | Disconnected

text \<open>\<open>let isClientReady = false\<close>\<close>

definition isClientReady_init :: bool where
  "isClientReady_init = False"

fun client_on :: "client_event \<Rightarrow> bool \<Rightarrow> bool" where
  "client_on Qr isClientReady = isClientReady"
| "client_on Ready isClientReady = True"
| "client_on AuthFailure isClientReady = False"
| "client_on Disconnected isClientReady = False"

text \<open>The flag after a sequence of events, delivered oldest first.\<close>

definition deliver :: "client_event list \<Rightarrow> bool \<Rightarrow> bool" where
  "deliver evs flag = foldl (\<lambda>f e. client_on e f) flag evs"

text \<open>The events whose handler assigns the flag.\<close>

fun writes_flag :: "client_event \<Rightarrow> bool" where
  "writes_flag Qr = False"
| "writes_flag _ = True"

subsection \<open>JavaScript numbers: the arithmetic of the OTP generator\<close>

text \<open>
  The generator computes \<open>Math.floor(100000 + Math.random() * 900000).toString()\<close> on
  IEEE 754 binary64 numbers. A finite double is a rational, and each arithmetic operation
  returns the exact result rounded to the nearest double, ties to even. The rounding is
  modelled on the rationals: \<open>binade x\<close> is the exponent of the binade of \<open>x\<close>, from
  \<open>- 1022\<close> (which also holds the subnormal numbers) to \<open>1023\<close>, and the doubles of
  that binade are the multiples of \<open>ulp x\<close>. Overflow to \<open>Infinity\<close> (a magnitude of
  \<open>2 ^ 1024\<close> or more) is outside the model; the generator's operands are below
  \<open>2 ^ 20\<close>.
\<close>

function binade_up :: "rat \<Rightarrow> int \<Rightarrow> int" where
  "binade_up x e = (if x < 2 \<or> 1023 \<le> e then e else binade_up (x / 2) (e + 1))"
  by pat_completeness auto
termination
  by (relation "measure (\<lambda>(x, e). nat (1023 - e))") auto

function binade_down :: "rat \<Rightarrow> int \<Rightarrow> int" where
  "binade_down x e = (if 1 \<le> x \<or> e \<le> - 1022 then e else binade_down (x * 2) (e - 1))"
  by pat_completeness auto
termination
  by (relation "measure (\<lambda>(x, e). nat (e + 1022))") auto

declare binade_up.simps [simp del] binade_down.simps [simp del]

definition binade :: "rat \<Rightarrow> int" where
  "binade x = (if 1 \<le> \<bar>x\<bar> then binade_up \<bar>x\<bar> 0 else binade_down \<bar>x\<bar> 0)"

definition ulp :: "rat \<Rightarrow> rat" where
  "ulp x = 2 powi (binade x - 52)"

definition round_ties_even :: "rat \<Rightarrow> int" where
  "round_ties_even q =
     (let n = \<lfloor>q\<rfloor>; f = q - of_int n
      in if f < 1 / 2 then n else if 1 / 2 < f then n + 1 else if even n then n else n + 1)"

text \<open>The double nearest to a rational.\<close>

definition fl :: "rat \<Rightarrow> rat" where
  "fl x = ulp x * of_int (round_ties_even (x / ulp x))"

definition is_double :: "rat \<Rightarrow> bool" where
  "is_double x = (fl x = x)"

text \<open>
  \<open>Number.prototype.toString\<close> on an integral number below \<open>10 ^ 21\<close>: the decimal
  digits, after a minus sign for a negative number.
\<close>

definition digit_char :: "nat \<Rightarrow> char" where
  "digit_char n = char_of (48 + n)"

fun digits :: "nat \<Rightarrow> string" where
  "digits n = (if n < 10 then [digit_char n] else digits (n div 10) @ [digit_char (n mod 10)])"

declare digits.simps [simp del]

definition toString :: "int \<Rightarrow> string" where
  "toString i = (if i < 0 then CHR ''-'' # digits (nat (- i)) else digits (nat i))"

text \<open>
  \<open>const otp = Math.floor(100000 + Math.random() * 900000).toString()\<close>, as a function
  of the value \<open>random\<close> that \<open>Math.random()\<close> returned: a double with
  \<open>0 \<le> random < 1\<close>.
\<close>

definition generate_otp :: "rat \<Rightarrow> string" where
  "generate_otp random = toString \<lfloor>fl (100000 + fl (random * 900000))\<rfloor>"

text \<open>
  What the specification says of a code: its characters are digits, and its numeric value.
\<close>

definition is_digit :: "char \<Rightarrow> bool" where
  "is_digit c = (48 \<le> (of_char c :: nat) \<and> (of_char c :: nat) \<le> 57)"

definition numeric_value :: "string \<Rightarrow> nat" where
  "numeric_value cs = foldl (\<lambda>a c. 10 * a + (of_char c - 48)) 0 cs"

subsection \<open>The OTP collection\<close>

text \<open>
  A document of the \<open>OTP\<close> model: the three fields of \<open>otpSchema\<close> and the \<open>_id\<close>
  that Mongoose gives every document. Times are milliseconds, as \<open>Date.now\<close> counts them.
\<close>

record otp_doc =
  doc_id :: nat
  phoneNumber :: string
  otp :: string
  createdAt :: nat

text \<open>
  The server: the readiness flag, the collection in insertion order, the clock that
  \<open>Date.now\<close> reads, and the source of fresh \<open>_id\<close>s.
\<close>

record server =
  isClientReady :: bool
  otps :: "otp_doc list"
  now :: nat
  next_id :: nat

text \<open>
  \<open>new OTP({ phoneNumber, otp })\<close> followed by \<open>save()\<close>: a new document with a fresh
  \<open>_id\<close> and \<open>createdAt\<close> defaulting to \<open>Date.now\<close> is inserted.
\<close>

definition new_OTP :: "server \<Rightarrow> string \<Rightarrow> string \<Rightarrow> otp_doc" where
  "new_OTP s p c = \<lparr>doc_id = next_id s, phoneNumber = p, otp = c, createdAt = now s\<rparr>"

definition save :: "otp_doc \<Rightarrow> server \<Rightarrow> server" where
  "save d s = s\<lparr>otps := otps s @ [d], next_id := Suc (next_id s)\<rparr>"

text \<open>
  \<open>OTP.findOne({ phoneNumber, otp })\<close>: a document with both fields equal, if there is
  one. The query has no sort and no condition on \<open>createdAt\<close>; among several matching
  documents the model returns the oldest, the first in insertion order.
\<close>

definition findOne :: "string \<Rightarrow> string \<Rightarrow> server \<Rightarrow> otp_doc option" where
  "findOne p c s = find (\<lambda>d. phoneNumber d = p \<and> otp d = c) (otps s)"

text \<open>\<open>OTP.deleteOne({ _id })\<close>: the first document with that \<open>_id\<close> is removed, if any.\<close>

fun delete_first :: "('a \<Rightarrow> bool) \<Rightarrow> 'a list \<Rightarrow> 'a list" where
  "delete_first P [] = []"
| "delete_first P (d # ds) = (if P d then ds else d # delete_first P ds)"

definition deleteOne :: "nat \<Rightarrow> server \<Rightarrow> server" where
  "deleteOne i s = s\<lparr>otps := delete_first (\<lambda>d. doc_id d = i) (otps s)\<rparr>"

text \<open>
  \<open>createdAt: { ..., expires: 300 }\<close> declares a TTL index: a background task of the
  database, run from time to time, deletes the documents whose \<open>createdAt\<close> is 300
  seconds old or older. A run of that task at the current time:
\<close>

definition expires :: nat where
  "expires = 300"

definition expired :: "nat \<Rightarrow> otp_doc \<Rightarrow> bool" where
  "expired t d = (createdAt d + expires * 1000 \<le> t)"

definition ttl_purge :: "server \<Rightarrow> server" where
  "ttl_purge s = s\<lparr>otps := filter (\<lambda>d. \<not> expired (now s) d) (otps s)\<rparr>"

text \<open>Time passing, and the client emitting an event.\<close>

definition tick :: "nat \<Rightarrow> server \<Rightarrow> server" where
  "tick ms s = s\<lparr>now := now s + ms\<rparr>"

definition emit :: "client_event \<Rightarrow> server \<Rightarrow> server" where
  "emit e s = s\<lparr>isClientReady := client_on e (isClientReady s)\<rparr>"

text \<open>
  What the database guarantees of the collection: \<open>_id\<close>s are unique and older than the
  next fresh one, and \<open>required: true\<close> admits no empty \<open>phoneNumber\<close> or \<open>otp\<close>.
\<close>

definition collection_ok :: "server \<Rightarrow> bool" where
  "collection_ok s =
     (distinct (map doc_id (otps s))
      \<and> list_all (\<lambda>d. doc_id d < next_id s \<and> phoneNumber d \<noteq> [] \<and> otp d \<noteq> []) (otps s))"

subsection \<open>The HTTP handlers\<close>

text \<open>
  A response is a status and a JSON body, either \<open>{ error: msg }\<close> or
  \<open>{ success: true, message: msg }\<close>.
\<close>

datatype json = Error string | Success string

datatype response = Response (status: nat) (json: json)

text \<open>
  \<open>req.body\<close>: each field the handlers read is absent or a string, as the schema types
  them. The handlers test the fields with \<open>!\<close>: an absent field and the empty string are
  falsy, every other string is truthy. The handlers themselves make no type test, and
  \<open>express.json()\<close> passes any JSON value on: a field that holds a number, an array or an
  object (which \<open>OTP.findOne\<close> would read as a query operator) is outside this model, and
  every statement below is about string-valued fields.
\<close>

record req_body =
  body_phoneNumber :: "string option"
  body_otp :: "string option"

text \<open>
  \<open>client.sendMessage\<close> resolves, or rejects with an error whose \<open>message\<close> is a
  string. \<open>error.message.includes(t)\<close> tests for a substring.
\<close>

datatype sendMessage_result = Resolved | Rejected string

fun str_includes :: "string \<Rightarrow> string \<Rightarrow> bool" where
  "str_includes [] t = (t = [])"
| "str_includes (c # cs) t = (prefix t (c # cs) \<or> str_includes cs t)"

text \<open>
  What a handler does: the response it sends, the call of \<open>client.sendMessage\<close> it
  makes (address and text), if any, and the server it leaves.
\<close>

record outcome =
  res :: response
  sendMessage :: "(string \<times> string) option"
  after :: server

text \<open>
  \<open>app.post('/send-otp', ...)\<close>. Besides the server and the request, the handler
  depends on the value \<open>random\<close> of \<open>Math.random()\<close> and on how the
  \<open>sendMessage\<close> call ends.
\<close>

definition send_otp :: "server \<Rightarrow> req_body \<Rightarrow> rat \<Rightarrow> sendMessage_result \<Rightarrow> outcome" where
  "send_otp s body random sending =
     (if \<not> isClientReady s
      then \<lparr>res = Response 500 (Error ''WhatsApp client is not ready''),
            sendMessage = None, after = s\<rparr>
      else case body_phoneNumber body of
        None \<Rightarrow>
          \<lparr>res = Response 400 (Error ''Phone number is required''),
           sendMessage = None, after = s\<rparr>
      | Some p \<Rightarrow>
          if p = []
          then \<lparr>res = Response 400 (Error ''Phone number is required''),
                sendMessage = None, after = s\<rparr>
          else
            let code = generate_otp random;
                s' = save (new_OTP s p code) s;
                formattedNumber = ''2'' @ p @ ''@c.us'';
                call = Some (formattedNumber, ''Your OTP is: '' @ code)
            in case sending of
                 Resolved \<Rightarrow>
                   \<lparr>res = Response 200 (Success ''OTP sent successfully''),
                    sendMessage = call, after = s'\<rparr>
               | Rejected message \<Rightarrow>
                   if str_includes message ''not registered''
                   then \<lparr>res = Response 400 (Error ''Recipient is not registered on WhatsApp''),
                         sendMessage = call, after = s'\<rparr>
                   else \<lparr>res = Response 500 (Error ''Failed to send OTP''),
                         sendMessage = call, after = s'\<rparr>)"

text \<open>\<open>app.post('/validate-otp', ...)\<close>\<close>

definition validate_otp :: "server \<Rightarrow> req_body \<Rightarrow> outcome" where
  "validate_otp s body =
     (case (body_phoneNumber body, body_otp body) of
        (Some p, Some c) \<Rightarrow>
          if p = [] \<or> c = []
          then \<lparr>res = Response 400 (Error ''Phone number and OTP are required''),
                sendMessage = None, after = s\<rparr>
          else (case findOne p c s of
                  None \<Rightarrow>
                    \<lparr>res = Response 400 (Error ''Invalid OTP or OTP expired''),
                     sendMessage = None, after = s\<rparr>
                | Some otpRecord \<Rightarrow>
                    \<lparr>res = Response 200 (Success ''OTP is valid''),
                     sendMessage = None, after = deleteOne (doc_id otpRecord) s\<rparr>)
      | _ \<Rightarrow>
          \<lparr>res = Response 400 (Error ''Phone number and OTP are required''),
           sendMessage = None, after = s\<rparr>)"

subsection \<open>The results of the specification\<close>

text \<open>The names the specification gives to the responses of the two handlers.\<close>

definition OtpSent :: response where
  "OtpSent = Response 200 (Success ''OTP sent successfully'')"

definition ChannelNotReady :: response where
  "ChannelNotReady = Response 500 (Error ''WhatsApp client is not ready'')"

definition InvalidInput :: response where
  "InvalidInput = Response 400 (Error ''Phone number is required'')"

definition RecipientNotRegistered :: response where
  "RecipientNotRegistered = Response 400 (Error ''Recipient is not registered on WhatsApp'')"

definition DispatchFailed :: response where
  "DispatchFailed = Response 500 (Error ''Failed to send OTP'')"

definition OtpValid :: response where
  "OtpValid = Response 200 (Success ''OTP is valid'')"

definition InvalidInputValidate :: response where
  "InvalidInputValidate = Response 400 (Error ''Phone number and OTP are required'')"

definition InvalidOrExpiredOtp :: response where
  "InvalidOrExpiredOtp = Response 400 (Error ''Invalid OTP or OTP expired'')"

lemmas responses =
  OtpSent_def ChannelNotReady_def InvalidInput_def RecipientNotRegistered_def
  DispatchFailed_def OtpValid_def InvalidInputValidate_def InvalidOrExpiredOtp_def

section \<open>Properties\<close>

subsection \<open>The readiness flag\<close>

lemma deliver_snoc: "deliver (evs @ [e]) flag = client_on e (deliver evs flag)"
  by (simp add: deliver_def)

lemma deliver_last_write:
  "deliver evs isClientReady_init =
     (filter writes_flag evs \<noteq> [] \<and> last (filter writes_flag evs) = Ready)"
proof (induction evs rule: rev_induct)
  case Nil
  show ?case by (simp add: deliver_def isClientReady_init_def)
next
  case (snoc e evs)
  show ?case
    using snoc.IH by (cases e) (simp_all add: deliver_snoc)
qed

text \<open>
  C5 as stated fails: after \<open>ready\<close> and then \<open>qr\<close> the most recent event is not
  \<open>ready\<close>, yet the flag is still true and dispatch is permitted.
\<close>

theorem C5_qr_after_ready_counterexample:
  "last [Ready, Qr] \<noteq> Ready \<and> deliver [Ready, Qr] isClientReady_init = True"
  by (simp add: deliver_def)

text \<open>
  C5, amended: the flag starts false; after any sequence of events it is true exactly when
  the most recent event among \<open>ready\<close>, \<open>auth_failure\<close> and \<open>disconnected\<close> was
  \<open>ready\<close>; \<open>ready\<close> sets it, \<open>auth_failure\<close> and \<open>disconnected\<close> clear it from
  every state, \<open>qr\<close> leaves it as it was; and delivering an event twice in a row gives the
  same flag as delivering it once.
\<close>

theorem C5_readiness_flag:
  "isClientReady_init = False
   \<and> deliver evs isClientReady_init =
       (filter writes_flag evs \<noteq> [] \<and> last (filter writes_flag evs) = Ready)
   \<and> client_on Ready flag = True
   \<and> client_on AuthFailure flag = False
   \<and> client_on Disconnected flag = False
   \<and> client_on Qr flag = flag
   \<and> client_on e (client_on e flag) = client_on e flag"
proof -
  have idem: "client_on e (client_on e flag) = client_on e flag"
    by (cases e) simp_all
  show ?thesis
    using deliver_last_write [of evs] idem by (simp add: isClientReady_init_def)
qed

subsection \<open>Decimal digits\<close>

lemma digits_not_Nil: "digits n \<noteq> []"
  by (subst digits.simps) simp

lemma toString_not_Nil: "toString i \<noteq> []"
  by (simp add: toString_def digits_not_Nil)

lemma generate_otp_not_Nil: "generate_otp random \<noteq> []"
  by (simp add: generate_otp_def toString_not_Nil)

lemma digits_length:
  "10 ^ k \<le> n \<Longrightarrow> n < 10 ^ Suc k \<Longrightarrow> length (digits n) = Suc k"
proof (induction k arbitrary: n)
  case 0
  then show ?case by (subst digits.simps) simp
next
  case (Suc k)
  have "(10::nat) \<le> 10 * 10 ^ k" by simp
  from this Suc.prems(1) have "10 \<le> n" unfolding power_Suc by (rule order_trans)
  from Suc.prems have "10 ^ k \<le> n div 10" "n div 10 < 10 ^ Suc k"
    by (simp_all add: less_eq_div_iff_mult_less_eq div_less_iff_less_mult mult.commute)
  from Suc.IH [OF this] \<open>10 \<le> n\<close> show ?case
    by (subst digits.simps) simp
qed

lemma is_digit_digit_char: "m < 10 \<Longrightarrow> is_digit (digit_char m)"
  by (simp add: is_digit_def digit_char_def)

lemma digit_char_value: "m < 10 \<Longrightarrow> (of_char (digit_char m) :: nat) - 48 = m"
  by (simp add: digit_char_def)

lemma digits_are_digits: "list_all is_digit (digits n)"
proof (induction n rule: digits.induct)
  case (1 n)
  show ?case
  proof (cases "n < 10")
    case True
    then show ?thesis by (subst digits.simps) (simp add: is_digit_digit_char)
  next
    case False
    with "1.IH" show ?thesis by (subst digits.simps) (simp add: is_digit_digit_char)
  qed
qed

lemma numeric_value_digits: "numeric_value (digits n) = n"
proof (induction n rule: digits.induct)
  case (1 n)
  show ?case
  proof (cases "n < 10")
    case True
    then show ?thesis
      by (subst digits.simps) (simp add: numeric_value_def digit_char_value)
  next
    case False
    with "1.IH" have "numeric_value (digits (n div 10)) = n div 10" by simp
    with False show ?thesis
      by (subst digits.simps) (simp add: numeric_value_def digit_char_value)
  qed
qed

subsection \<open>Rounding to the nearest double\<close>

text \<open>
  The two recursions find the binade: for \<open>1 \<le> x < 2 ^ 1024\<close> the exponent \<open>k\<close> with
  \<open>2 ^ k \<le> x < 2 ^ (k + 1)\<close>, and below 1 an exponent whose binade top is above \<open>x\<close>.
\<close>

lemma binade_up_bounds:
  "1 \<le> x \<Longrightarrow> x < 2 ^ Suc n \<Longrightarrow> e + int n \<le> 1023 \<Longrightarrow>
     \<exists>k\<le>n. binade_up x e = e + int k \<and> 2 ^ k \<le> x \<and> x < 2 ^ Suc k"
proof (induction n arbitrary: x e)
  case 0
  then have "binade_up x e = e" by (simp add: binade_up.simps)
  with 0 show ?case by simp
next
  case (Suc n)
  show ?case
  proof (cases "x < 2")
    case True
    then have "binade_up x e = e" by (simp add: binade_up.simps)
    with True Suc.prems show ?thesis by (intro exI [of _ 0]) simp
  next
    case False
    with Suc.prems have step: "binade_up x e = binade_up (x / 2) (e + 1)"
      by (subst binade_up.simps) simp
    from False Suc.prems have "1 \<le> x / 2" "x / 2 < 2 ^ Suc n" "(e + 1) + int n \<le> 1023"
      by simp_all
    from Suc.IH [OF this] obtain k where k: "k \<le> n"
      "binade_up (x / 2) (e + 1) = e + 1 + int k" "2 ^ k \<le> x / 2" "x / 2 < 2 ^ Suc k"
      by blast
    show ?thesis
      using k step by (intro exI [of _ "Suc k"]) simp
  qed
qed

lemma binade_down_bounds:
  "0 \<le> x \<Longrightarrow> x < 2 \<Longrightarrow>
     binade_down x e \<le> e \<and> x * 2 powi e < 2 powi (binade_down x e + 1)"
proof (induction x e rule: binade_down.induct)
  case (1 x e)
  show ?case
  proof (cases "1 \<le> x \<or> e \<le> - 1022")
    case True
    then have "binade_down x e = e" by (subst binade_down.simps) simp
    moreover have "x * 2 powi e < 2 * 2 powi e"
      using "1.prems" by simp
    ultimately show ?thesis by (simp add: power_int_add)
  next
    case False
    then have step: "binade_down x e = binade_down (x * 2) (e - 1)"
      by (subst binade_down.simps) simp
    from False "1.prems" have "0 \<le> x * 2" "x * 2 < 2" by simp_all
    from "1.IH" [OF False this]
    have IH: "binade_down (x * 2) (e - 1) \<le> e - 1"
      "x * 2 * 2 powi (e - 1) < 2 powi (binade_down (x * 2) (e - 1) + 1)"
      by simp_all
    have "x * 2 * 2 powi (e - 1) = x * 2 powi e"
      by (simp add: power_int_diff)
    with IH step show ?thesis by simp
  qed
qed

lemma binade_normal:
  assumes "1 \<le> x" "x < 2 ^ Suc n" "n \<le> 1023"
  shows "\<exists>k\<le>n. binade x = int k \<and> 2 ^ k \<le> x \<and> x < 2 ^ Suc k"
proof -
  from assms have "0 + int n \<le> 1023" by simp
  from binade_up_bounds [OF assms(1,2) this] assms(1) show ?thesis
    by (simp add: binade_def)
qed

lemma binade_small:
  assumes "0 \<le> x" "x < 1"
  shows "binade x \<le> 0 \<and> x < 2 powi (binade x + 1)"
proof -
  from assms have "x < 2" by simp
  from binade_down_bounds [OF assms(1) this, of 0] assms show ?thesis
    by (simp add: binade_def)
qed

lemma binade_half_to_one: "1 / 2 \<le> r \<Longrightarrow> r < 1 \<Longrightarrow> binade r = - 1"
proof -
  assume r: "1 / 2 \<le> r" "r < 1"
  then have "binade_down r 0 = binade_down (r * 2) (- 1)"
    by (subst binade_down.simps) simp
  also from r have "\<dots> = - 1"
    by (subst binade_down.simps) simp
  finally show ?thesis
    using r by (simp add: binade_def)
qed

text \<open>
  Rounding to the nearest integer never passes an integer, and goes down when the
  fraction is below one half.
\<close>

lemma round_ties_even_le: "q \<le> of_int m \<Longrightarrow> round_ties_even q \<le> m"
proof -
  assume q: "q \<le> of_int m"
  then have fl: "\<lfloor>q\<rfloor> \<le> m" by (simp add: floor_le_iff)
  show ?thesis
  proof (cases "\<lfloor>q\<rfloor> = m")
    case True
    with q have "q = of_int \<lfloor>q\<rfloor>" using of_int_floor_le [of q] by simp
    then have "q - of_int \<lfloor>q\<rfloor> = 0" by simp
    with True show ?thesis by (simp add: round_ties_even_def Let_def)
  next
    case False
    with fl have "\<lfloor>q\<rfloor> + 1 \<le> m" by simp
    then show ?thesis by (simp add: round_ties_even_def Let_def)
  qed
qed

lemma round_ties_even_le_half: "q < of_int m + 1 / 2 \<Longrightarrow> round_ties_even q \<le> m"
proof -
  assume q: "q < of_int m + 1 / 2"
  from q of_int_floor_le [of q] have "(of_int \<lfloor>q\<rfloor> :: rat) < of_int m + 1"
    by linarith
  then have "(of_int \<lfloor>q\<rfloor> :: rat) < of_int (m + 1)" by simp
  then have "\<lfloor>q\<rfloor> < m + 1" by (simp only: of_int_less_iff)
  then have fl: "\<lfloor>q\<rfloor> \<le> m" by simp
  show ?thesis
  proof (cases "\<lfloor>q\<rfloor> = m")
    case True
    with q have "q - of_int \<lfloor>q\<rfloor> < 1 / 2" by simp
    with True show ?thesis by (simp add: round_ties_even_def Let_def)
  next
    case False
    with fl have "\<lfloor>q\<rfloor> + 1 \<le> m" by simp
    then show ?thesis by (simp add: round_ties_even_def Let_def)
  qed
qed

lemma round_ties_even_ge: "of_int m \<le> q \<Longrightarrow> m \<le> round_ties_even q"
proof -
  assume "of_int m \<le> q"
  then have "m \<le> \<lfloor>q\<rfloor>" by (simp add: le_floor_iff)
  then show ?thesis by (simp add: round_ties_even_def Let_def)
qed

lemma round_ties_even_of_int: "round_ties_even (of_int m) = m"
  by (simp add: round_ties_even_def)

text \<open>
  Hence \<open>fl\<close> never passes a multiple of \<open>ulp x\<close>, in particular not the top of the
  binade of \<open>x\<close>.
\<close>

lemma ulp_pos: "0 < ulp x"
  by (simp add: ulp_def)

lemma fl_le: "x \<le> ulp x * of_int m \<Longrightarrow> fl x \<le> ulp x * of_int m"
proof -
  assume "x \<le> ulp x * of_int m"
  then have "x / ulp x \<le> of_int m"
    using ulp_pos [of x] by (simp add: field_simps)
  then have "round_ties_even (x / ulp x) \<le> m" by (rule round_ties_even_le)
  then have "(of_int (round_ties_even (x / ulp x)) :: rat) \<le> of_int m" by simp
  then show ?thesis
    unfolding fl_def using ulp_pos [of x] by (simp only: mult_le_cancel_left_pos)
qed

lemma fl_le_half: "x < ulp x * (of_int m + 1 / 2) \<Longrightarrow> fl x \<le> ulp x * of_int m"
proof -
  assume "x < ulp x * (of_int m + 1 / 2)"
  then have "x / ulp x < of_int m + 1 / 2"
    using ulp_pos [of x] by (simp add: field_simps)
  then have "round_ties_even (x / ulp x) \<le> m" by (rule round_ties_even_le_half)
  then have "(of_int (round_ties_even (x / ulp x)) :: rat) \<le> of_int m" by simp
  then show ?thesis
    unfolding fl_def using ulp_pos [of x] by (simp only: mult_le_cancel_left_pos)
qed

lemma fl_ge: "ulp x * of_int m \<le> x \<Longrightarrow> ulp x * of_int m \<le> fl x"
proof -
  assume "ulp x * of_int m \<le> x"
  then have "of_int m \<le> x / ulp x"
    using ulp_pos [of x] by (simp add: field_simps)
  then have "m \<le> round_ties_even (x / ulp x)" by (rule round_ties_even_ge)
  then have "(of_int m :: rat) \<le> of_int (round_ties_even (x / ulp x))" by simp
  then show ?thesis
    unfolding fl_def using ulp_pos [of x] by (simp only: mult_le_cancel_left_pos)
qed

lemma fl_nonneg: "0 \<le> x \<Longrightarrow> 0 \<le> fl x"
  using fl_ge [of x 0] by simp

lemma fl_le_binade_top:
  assumes "x < 2 powi (binade x + 1)"
  shows "fl x \<le> 2 powi (binade x + 1)"
proof -
  have top: "ulp x * of_int (2 ^ 53) = 2 powi (binade x + 1)"
  proof -
    have "(2::rat) powi (binade x - 52) * 2 powi 53 = 2 powi (binade x - 52 + 53)"
      by (subst power_int_add) simp_all
    moreover have "binade x - 52 + 53 = binade x + 1" by simp
    ultimately show ?thesis by (simp add: ulp_def)
  qed
  from assms have "x \<le> ulp x * of_int (2 ^ 53)" by (simp only: top)
  from fl_le [OF this] show ?thesis by (simp only: top)
qed

lemma fl_below_pow2:
  assumes "0 \<le> x" "x < 2 ^ Suc n" "n \<le> 1023"
  shows "fl x \<le> 2 ^ Suc n"
proof (cases "x < 1")
  case True
  from binade_small [OF assms(1) True]
  have b: "binade x \<le> 0" "x < 2 powi (binade x + 1)" by simp_all
  from fl_le_binade_top [OF b(2)] have "fl x \<le> 2 powi (binade x + 1)" .
  also have "\<dots> \<le> 2 powi (int (Suc n))"
    using b(1) by (intro power_int_increasing) simp_all
  finally show ?thesis by (simp only: power_int_of_nat)
next
  case False
  then have "1 \<le> x" by simp
  from binade_normal [OF this assms(2,3)] obtain k where
    k: "k \<le> n" "binade x = int k" "x < 2 ^ Suc k" by blast
  have "x < 2 powi (binade x + 1)"
    using k(2,3) by (simp add: power_int_add)
  from fl_le_binade_top [OF this] have "fl x \<le> 2 powi (binade x + 1)" .
  also have "\<dots> \<le> 2 powi (int (Suc n))"
    using k(1,2) by (intro power_int_increasing) simp_all
  finally show ?thesis by (simp only: power_int_of_nat)
qed

text \<open>
  The largest double below 1 is \<open>1 - 2 ^ - 53\<close>. The product of a double below 1 with
  900000 is therefore at most \<open>900000 - 900000 * 2 ^ - 53\<close>, which lies between the
  neighbouring doubles \<open>900000 - 2 ^ - 33\<close> and \<open>900000\<close> and is nearer to the lower
  one: the rounded product stays below 900000, and the rounded sum below 1000000.
\<close>

lemma double_below_one:
  assumes "is_double r" "0 \<le> r" "r < 1"
  shows "r \<le> 1 - 1 / 2 ^ 53"
proof (cases "r < 1 / 2")
  case True
  then show ?thesis by simp
next
  case False
  with assms have "binade_down r 0 = binade_down (r * 2) (- 1)"
    by (subst binade_down.simps) simp
  also from False have "\<dots> = - 1"
    by (subst binade_down.simps) simp
  finally have "binade r = - 1"
    using assms by (simp add: binade_def)
  then have u: "ulp r = 1 / 2 ^ 53"
    by (simp add: ulp_def power_int_minus_divide)
  define k where "k = round_ties_even (r / ulp r)"
  from assms(1) have r: "r = of_int k / 2 ^ 53"
    by (simp add: is_double_def fl_def k_def u)
  with assms(3) have "(of_int k :: rat) < of_int (2 ^ 53)"
    by (simp add: field_simps)
  then have "k < 2 ^ 53" by (simp only: of_int_less_iff)
  then have "k \<le> 2 ^ 53 - 1" by simp
  then have "(of_int k :: rat) \<le> of_int (2 ^ 53 - 1)" by (simp only: of_int_le_iff)
  then show ?thesis
    by (subst r) (simp add: field_simps)
qed

lemma is_double_largest_below_one: "is_double (1 - 1 / 2 ^ 53)"
proof -
  define x :: rat where "x = 1 - 1 / 2 ^ 53"
  have "binade x = - 1"
    by (rule binade_half_to_one) (simp_all add: x_def)
  then have u: "ulp x = 1 / 2 ^ 53"
    by (simp add: ulp_def power_int_minus_divide)
  have q: "x / (1 / 2 ^ 53) = of_int (2 ^ 53 - 1)"
    by (simp add: x_def)
  have "fl x = x"
    unfolding fl_def u q round_ties_even_of_int by (simp add: x_def)
  then show ?thesis
    by (simp only: is_double_def x_def)
qed

lemma product_bound:
  assumes "0 \<le> x" "x \<le> 900000 * (1 - 1 / 2 ^ 53)"
  shows "0 \<le> fl x \<and> fl x \<le> 900000 - 1 / 2 ^ 33"
proof (cases "x < 2 ^ 19")
  case True
  from fl_below_pow2 [of x 18] assms(1) True have "fl x \<le> 2 ^ 19" by simp
  then have "fl x \<le> 900000 - 1 / 2 ^ 33" by simp
  with fl_nonneg [OF assms(1)] show ?thesis by simp
next
  case False
  then have "1 \<le> x" by simp
  moreover from assms(2) have "x < 2 ^ Suc 19" by simp
  ultimately obtain k where k: "k \<le> 19" "binade x = int k" "x < 2 ^ Suc k"
    using binade_normal [of x 19] by auto
  have "k = 19"
  proof (rule ccontr)
    assume "k \<noteq> 19"
    with k(1) have "Suc k \<le> 19" by simp
    then have "(2::rat) ^ Suc k \<le> 2 ^ 19" by (rule power_increasing) simp
    with k(3) False show False by simp
  qed
  with k(2) have u: "ulp x = 1 / 2 ^ 33"
    by (simp add: ulp_def power_int_minus_divide)
  from assms(2) have "x < ulp x * (of_int (900000 * 2 ^ 33 - 1) + 1 / 2)"
    by (simp add: u)
  from fl_le_half [OF this] have "fl x \<le> 900000 - 1 / 2 ^ 33"
    by (simp add: u)
  with fl_nonneg [OF assms(1)] show ?thesis by simp
qed

lemma fl_ge_100000:
  assumes "binade y = int k" "k = 16 \<or> k = 17 \<or> k = 18 \<or> k = 19" "100000 \<le> y"
  shows "100000 \<le> fl y"
proof -
  from assms(2) consider "k = 16" | "k = 17" | "k = 18" | "k = 19" by blast
  then show ?thesis
  proof cases
    case 1
    with assms(1) have u: "ulp y = 1 / 2 ^ 36"
      by (simp add: ulp_def power_int_minus_divide)
    from assms(3) have "ulp y * of_int (100000 * 2 ^ 36) \<le> y" by (simp add: u)
    from fl_ge [OF this] show ?thesis by (simp add: u)
  next
    case 2
    with assms(1) have u: "ulp y = 1 / 2 ^ 35"
      by (simp add: ulp_def power_int_minus_divide)
    from assms(3) have "ulp y * of_int (100000 * 2 ^ 35) \<le> y" by (simp add: u)
    from fl_ge [OF this] show ?thesis by (simp add: u)
  next
    case 3
    with assms(1) have u: "ulp y = 1 / 2 ^ 34"
      by (simp add: ulp_def power_int_minus_divide)
    from assms(3) have "ulp y * of_int (100000 * 2 ^ 34) \<le> y" by (simp add: u)
    from fl_ge [OF this] show ?thesis by (simp add: u)
  next
    case 4
    with assms(1) have u: "ulp y = 1 / 2 ^ 33"
      by (simp add: ulp_def power_int_minus_divide)
    from assms(3) have "ulp y * of_int (100000 * 2 ^ 33) \<le> y" by (simp add: u)
    from fl_ge [OF this] show ?thesis by (simp add: u)
  qed
qed

lemma sum_bound:
  assumes "100000 \<le> y" "y \<le> 1000000 - 1 / 2 ^ 33"
  shows "100000 \<le> fl y \<and> fl y \<le> 1000000 - 1 / 2 ^ 33"
proof -
  from assms have "1 \<le> y" "y < 2 ^ Suc 19" by simp_all
  then obtain k where k: "k \<le> 19" "binade y = int k" "y < 2 ^ Suc k"
    using binade_normal [of y 19] by auto
  have "16 \<le> k"
  proof (rule ccontr)
    assume "\<not> 16 \<le> k"
    then have "Suc k \<le> 16" by simp
    then have "(2::rat) ^ Suc k \<le> 2 ^ 16" by (rule power_increasing) simp
    with k(3) assms(1) show False by simp
  qed
  with k(1) have range: "k = 16 \<or> k = 17 \<or> k = 18 \<or> k = 19" by arith
  from fl_ge_100000 [OF k(2) range assms(1)] have lower: "100000 \<le> fl y" .
  have upper: "fl y \<le> 1000000 - 1 / 2 ^ 33"
  proof (cases "k = 19")
    case True
    with k(2) have u: "ulp y = 1 / 2 ^ 33"
      by (simp add: ulp_def power_int_minus_divide)
    from assms(2) have "y \<le> ulp y * of_int (1000000 * 2 ^ 33 - 1)"
      by (simp add: u)
    from fl_le [OF this] show ?thesis by (simp add: u)
  next
    case False
    with k(1) have "Suc k \<le> 19" by simp
    then have "(2::rat) ^ Suc k \<le> 2 ^ 19" by (rule power_increasing) simp
    with k(3) have "y < 2 ^ Suc 18" by simp
    with fl_below_pow2 [of y 18] assms(1) have "fl y \<le> 2 ^ 19" by simp
    then show ?thesis by simp
  qed
  from lower upper show ?thesis ..
qed

lemma otp_number_range:
  assumes "is_double r" "0 \<le> r" "r < 1"
  shows "100000 \<le> \<lfloor>fl (100000 + fl (r * 900000))\<rfloor>
       \<and> \<lfloor>fl (100000 + fl (r * 900000))\<rfloor> \<le> 999999"
proof -
  from double_below_one [OF assms] have "r * 900000 \<le> 900000 * (1 - 1 / 2 ^ 53)"
    by simp
  moreover from assms(2) have "0 \<le> r * 900000" by simp
  ultimately have p: "0 \<le> fl (r * 900000)" "fl (r * 900000) \<le> 900000 - 1 / 2 ^ 33"
    using product_bound [of "r * 900000"] by simp_all
  then have "100000 \<le> 100000 + fl (r * 900000)"
    "100000 + fl (r * 900000) \<le> 1000000 - 1 / 2 ^ 33" by simp_all
  from sum_bound [OF this]
  have s: "100000 \<le> fl (100000 + fl (r * 900000))"
    "fl (100000 + fl (r * 900000)) \<le> 1000000 - 1 / 2 ^ 33" by simp_all
  from s(1) have "100000 \<le> \<lfloor>fl (100000 + fl (r * 900000))\<rfloor>"
    by (simp add: le_floor_iff)
  moreover from s(2) have "fl (100000 + fl (r * 900000)) < of_int 1000000" by simp
  then have "\<lfloor>fl (100000 + fl (r * 900000))\<rfloor> < 1000000"
    by (simp only: floor_less_iff)
  ultimately show ?thesis by simp
qed

text \<open>
  The generator evaluated at \<open>Math.random() = 0.5\<close>.
\<close>

lemma binade_450000: "binade 450000 = 18"
  by (simp add: binade_def binade_up.simps)

lemma fl_450000: "fl 450000 = 450000"
  by (simp add: fl_def ulp_def binade_450000 round_ties_even_def power_int_minus_divide)

lemma binade_550000: "binade 550000 = 19"
  by (simp add: binade_def binade_up.simps)

lemma fl_550000: "fl 550000 = 550000"
  by (simp add: fl_def ulp_def binade_550000 round_ties_even_def power_int_minus_divide)

lemma digits_550000: "digits 550000 = ''550000''"
  by (simp add: digits.simps digit_char_def char_of_def bit_0)

lemma generate_otp_half: "generate_otp (1 / 2) = ''550000''"
  by (simp add: generate_otp_def fl_450000 fl_550000 toString_def digits_550000)

subsection \<open>The generated code\<close>

text \<open>
  C6: for every double \<open>random\<close> with \<open>0 \<le> random < 1\<close>, the generated code has six
  characters, all of them digits, and its numeric value lies between 100000 and 999999.
  The generator is a total function: it has no failing branch.
\<close>

theorem C6_generate_otp_six_digits:
  assumes "is_double random" and "0 \<le> random" and "random < 1"
  shows "length (generate_otp random) = 6
       \<and> list_all is_digit (generate_otp random)
       \<and> 100000 \<le> numeric_value (generate_otp random)
       \<and> numeric_value (generate_otp random) \<le> 999999"
proof -
  define n where "n = \<lfloor>fl (100000 + fl (random * 900000))\<rfloor>"
  from otp_number_range [OF assms] have n: "100000 \<le> n" "n \<le> 999999"
    by (simp_all add: n_def)
  then have g: "generate_otp random = digits (nat n)"
    by (simp add: generate_otp_def toString_def n_def)
  from n have "10 ^ 5 \<le> nat n" "nat n < 10 ^ Suc 5" by simp_all
  from digits_length [OF this] have "length (digits (nat n)) = 6" by simp
  moreover from n have "100000 \<le> nat n" "nat n \<le> 999999" by simp_all
  ultimately show ?thesis
    by (simp add: g digits_are_digits numeric_value_digits)
qed

text \<open>
  The hypotheses of C6 hold at the largest double below 1, where the bound is tightest.
\<close>

theorem C6_generate_otp_witness:
  "is_double (1 - 1 / 2 ^ 53) \<and> (0::rat) \<le> 1 - 1 / 2 ^ 53 \<and> (1 - 1 / 2 ^ 53 :: rat) < 1
   \<and> length (generate_otp (1 - 1 / 2 ^ 53)) = 6
   \<and> list_all is_digit (generate_otp (1 - 1 / 2 ^ 53))
   \<and> 100000 \<le> numeric_value (generate_otp (1 - 1 / 2 ^ 53))
   \<and> numeric_value (generate_otp (1 - 1 / 2 ^ 53)) \<le> 999999"
proof -
  have h: "(0::rat) \<le> 1 - 1 / 2 ^ 53" "(1 - 1 / 2 ^ 53 :: rat) < 1" by simp_all
  from C6_generate_otp_six_digits [OF is_double_largest_below_one h]
    is_double_largest_below_one h
  show ?thesis by blast
qed

subsection \<open>The collection: lookup, insertion, deletion\<close>

lemma find_append:
  "find P (xs @ ys) = (case find P xs of None \<Rightarrow> find P ys | Some x \<Rightarrow> Some x)"
  by (induction xs) simp_all

lemma find_delete_first:
  "distinct (map doc_id ds) \<Longrightarrow> find P ds = Some d \<Longrightarrow>
     delete_first (\<lambda>x. doc_id x = doc_id d) ds = remove1 d ds"
proof (induction ds)
  case Nil
  then show ?case by simp
next
  case (Cons a ds)
  show ?case
  proof (cases "P a")
    case True
    with Cons.prems show ?thesis by simp
  next
    case False
    with Cons.prems have f: "find P ds = Some d" by simp
    then have "d \<in> set ds" by (auto simp: find_Some_iff)
    with Cons.prems have "doc_id a \<noteq> doc_id d" "a \<noteq> d" by auto
    with Cons.IH f Cons.prems show ?thesis by simp
  qed
qed

lemma delete_first_append_new:
  "list_all (\<lambda>d. \<not> P d) ds \<Longrightarrow> P x \<Longrightarrow> delete_first P (ds @ [x]) = ds"
  by (induction ds) simp_all

lemma delete_first_subset: "set (delete_first P xs) \<subseteq> set xs"
  by (induction xs) auto

lemma delete_first_distinct_map:
  "distinct (map f xs) \<Longrightarrow> distinct (map f (delete_first P xs))"
proof (induction xs)
  case Nil
  show ?case by simp
next
  case (Cons x xs)
  then show ?case
    using delete_first_subset [of P xs] by auto
qed

lemma remove1_append_new: "x \<notin> set xs \<Longrightarrow> remove1 x (xs @ [x]) = xs"
  by (simp add: remove1_append)

lemma findOne_None_iff:
  "findOne p c s = None \<longleftrightarrow> \<not> (\<exists>d\<in>set (otps s). phoneNumber d = p \<and> otp d = c)"
  by (auto simp: findOne_def find_None_iff)

lemma findOne_Some_props:
  "findOne p c s = Some d \<Longrightarrow> d \<in> set (otps s) \<and> phoneNumber d = p \<and> otp d = c"
  by (auto simp: findOne_def find_Some_iff)

lemma save_otps: "otps (save d s) = otps s @ [d]"
  by (simp add: save_def)

lemma findOne_save_new:
  "findOne p c s = None \<Longrightarrow> findOne p c (save (new_OTP s p c) s) = Some (new_OTP s p c)"
  by (simp add: findOne_def save_def find_append new_OTP_def)

lemma new_OTP_fresh: "collection_ok s \<Longrightarrow> new_OTP s p c \<notin> set (otps s)"
  by (auto simp: collection_ok_def new_OTP_def list_all_iff)

lemma collection_ok_distinct: "collection_ok s \<Longrightarrow> distinct (otps s)"
  by (auto simp: collection_ok_def distinct_map)

lemma collection_ok_save:
  "collection_ok s \<Longrightarrow> p \<noteq> [] \<Longrightarrow> c \<noteq> [] \<Longrightarrow> collection_ok (save (new_OTP s p c) s)"
  by (auto simp: collection_ok_def save_def new_OTP_def list_all_iff)

subsection \<open>The handlers, case by case\<close>

lemma send_otp_not_ready:
  "\<not> isClientReady s \<Longrightarrow>
     send_otp s body random sending = \<lparr>res = ChannelNotReady, sendMessage = None, after = s\<rparr>"
  by (simp add: send_otp_def ChannelNotReady_def)

lemma send_otp_no_phoneNumber:
  "isClientReady s \<Longrightarrow> body_phoneNumber body = None \<or> body_phoneNumber body = Some [] \<Longrightarrow>
     send_otp s body random sending = \<lparr>res = InvalidInput, sendMessage = None, after = s\<rparr>"
  by (auto simp: send_otp_def InvalidInput_def)

lemma send_otp_stored:
  "isClientReady s \<Longrightarrow> body_phoneNumber body = Some p \<Longrightarrow> p \<noteq> [] \<Longrightarrow>
     after (send_otp s body random sending) = save (new_OTP s p (generate_otp random)) s
     \<and> sendMessage (send_otp s body random sending) =
         Some (''2'' @ p @ ''@c.us'', ''Your OTP is: '' @ generate_otp random)"
  by (simp add: send_otp_def Let_def split: sendMessage_result.split)

lemma send_otp_res:
  "isClientReady s \<Longrightarrow> body_phoneNumber body = Some p \<Longrightarrow> p \<noteq> [] \<Longrightarrow>
     res (send_otp s body random sending) =
       (case sending of
          Resolved \<Rightarrow> OtpSent
        | Rejected message \<Rightarrow>
            if str_includes message ''not registered'' then RecipientNotRegistered
            else DispatchFailed)"
  by (simp add: send_otp_def Let_def responses split: sendMessage_result.split)

lemma validate_otp_found:
  "p \<noteq> [] \<Longrightarrow> c \<noteq> [] \<Longrightarrow> findOne p c s = Some d \<Longrightarrow>
     validate_otp s \<lparr>body_phoneNumber = Some p, body_otp = Some c\<rparr> =
       \<lparr>res = OtpValid, sendMessage = None, after = deleteOne (doc_id d) s\<rparr>"
  by (simp add: validate_otp_def OtpValid_def)

lemma validate_otp_not_found:
  "p \<noteq> [] \<Longrightarrow> c \<noteq> [] \<Longrightarrow> findOne p c s = None \<Longrightarrow>
     validate_otp s \<lparr>body_phoneNumber = Some p, body_otp = Some c\<rparr> =
       \<lparr>res = InvalidOrExpiredOtp, sendMessage = None, after = s\<rparr>"
  by (simp add: validate_otp_def InvalidOrExpiredOtp_def)

lemma OtpValid_neq: "OtpValid \<noteq> InvalidOrExpiredOtp" "OtpValid \<noteq> InvalidInputValidate"
  by (simp_all add: responses)

lemma validate_otp_valid_iff:
  assumes "p \<noteq> []" "c \<noteq> []"
  shows "res (validate_otp s \<lparr>body_phoneNumber = Some p, body_otp = Some c\<rparr>) = OtpValid
     \<longleftrightarrow> (\<exists>d\<in>set (otps s). phoneNumber d = p \<and> otp d = c)"
proof (cases "findOne p c s")
  case None
  with assms show ?thesis
    using findOne_None_iff [of p c s] by (simp add: validate_otp_not_found OtpValid_neq [symmetric])
next
  case (Some d)
  with assms show ?thesis
    using findOne_None_iff [of p c s] by (simp add: validate_otp_found)
qed

lemma validate_otp_res_cases:
  "res (validate_otp s body) = OtpValid
   \<or> res (validate_otp s body) = InvalidOrExpiredOtp
   \<or> res (validate_otp s body) = InvalidInputValidate"
  by (simp add: validate_otp_def responses split: option.split prod.split)

lemma validate_otp_unknown_phoneNumber:
  assumes "list_all (\<lambda>d. phoneNumber d \<noteq> p) (otps s)"
  shows "res (validate_otp s \<lparr>body_phoneNumber = Some p, body_otp = c\<rparr>) \<noteq> OtpValid"
proof -
  from assms have "findOne p c' s = None" for c'
    by (auto simp: findOne_def find_None_iff list_all_iff)
  then show ?thesis
    by (simp add: validate_otp_def responses split: option.split)
qed

lemma validate_otp_consumes:
  assumes "collection_ok s" "p \<noteq> []" "c \<noteq> []" "findOne p c s = Some d"
  shows "validate_otp s \<lparr>body_phoneNumber = Some p, body_otp = Some c\<rparr> =
           \<lparr>res = OtpValid, sendMessage = None, after = s\<lparr>otps := remove1 d (otps s)\<rparr>\<rparr>"
proof -
  from assms(1) have "distinct (map doc_id (otps s))" by (simp add: collection_ok_def)
  from find_delete_first [OF this] assms(4)
  have "delete_first (\<lambda>x. doc_id x = doc_id d) (otps s) = remove1 d (otps s)"
    by (simp add: findOne_def)
  with assms show ?thesis
    by (simp add: validate_otp_found deleteOne_def)
qed

text \<open>
  Every step of the server keeps the collection well formed.
\<close>

lemma collection_ok_send_otp:
  "collection_ok s \<Longrightarrow> collection_ok (after (send_otp s body random sending))"
proof (cases "isClientReady s \<and> (\<exists>p. body_phoneNumber body = Some p \<and> p \<noteq> [])")
  case True
  assume ok: "collection_ok s"
  from True obtain p where p: "isClientReady s" "body_phoneNumber body = Some p" "p \<noteq> []"
    by blast
  from send_otp_stored [OF p] collection_ok_save [OF ok p(3) generate_otp_not_Nil]
  show ?thesis by simp
next
  case False
  assume "collection_ok s"
  with False show ?thesis
    by (auto simp: send_otp_def split: option.split)
qed

lemma collection_ok_validate_otp:
  "collection_ok s \<Longrightarrow> collection_ok (after (validate_otp s body))"
  using delete_first_subset [of _ "otps s"]
  by (auto simp: validate_otp_def deleteOne_def collection_ok_def list_all_iff
      delete_first_distinct_map split: option.split)

lemma collection_ok_ttl_purge: "collection_ok s \<Longrightarrow> collection_ok (ttl_purge s)"
  by (auto simp: collection_ok_def ttl_purge_def list_all_iff distinct_map_filter)

lemma collection_ok_tick: "collection_ok s \<Longrightarrow> collection_ok (tick ms s)"
  by (simp add: collection_ok_def tick_def)

lemma collection_ok_emit: "collection_ok s \<Longrightarrow> collection_ok (emit e s)"
  by (simp add: collection_ok_def emit_def)

text \<open>
  A code issued for a phone number that holds no record with that code validates once:
  the second validation finds nothing.
\<close>

lemma issue_validate_twice:
  assumes "collection_ok s" and "isClientReady s" and "p \<noteq> []"
    and "findOne p (generate_otp random) s = None"
  shows "res (send_otp s \<lparr>body_phoneNumber = Some p, body_otp = x\<rparr> random Resolved) = OtpSent
       \<and> res (validate_otp
              (after (send_otp s \<lparr>body_phoneNumber = Some p, body_otp = x\<rparr> random Resolved))
              \<lparr>body_phoneNumber = Some p, body_otp = Some (generate_otp random)\<rparr>) = OtpValid
       \<and> new_OTP s p (generate_otp random) \<notin> set (otps (after (validate_otp
              (after (send_otp s \<lparr>body_phoneNumber = Some p, body_otp = x\<rparr> random Resolved))
              \<lparr>body_phoneNumber = Some p, body_otp = Some (generate_otp random)\<rparr>)))
       \<and> res (validate_otp
              (after (validate_otp
                 (after (send_otp s \<lparr>body_phoneNumber = Some p, body_otp = x\<rparr> random Resolved))
                 \<lparr>body_phoneNumber = Some p, body_otp = Some (generate_otp random)\<rparr>))
              \<lparr>body_phoneNumber = Some p, body_otp = Some (generate_otp random)\<rparr>)
           = InvalidOrExpiredOtp"
proof -
  define c where "c = generate_otp random"
  define d where "d = new_OTP s p c"
  define s1 where "s1 = save d s"
  define v where "v = \<lparr>body_phoneNumber = Some p, body_otp = Some c\<rparr>"
  have c: "c \<noteq> []" by (simp add: c_def generate_otp_not_Nil)
  have sent: "send_otp s \<lparr>body_phoneNumber = Some p, body_otp = x\<rparr> random Resolved =
      \<lparr>res = OtpSent, sendMessage = Some (''2'' @ p @ ''@c.us'', ''Your OTP is: '' @ c), after = s1\<rparr>"
    using assms(2,3) by (simp add: send_otp_def Let_def OtpSent_def c_def d_def s1_def)
  have ok1: "collection_ok s1"
    unfolding s1_def d_def using assms(1,3) c by (rule collection_ok_save)
  have found: "findOne p c s1 = Some d"
    unfolding s1_def d_def using assms(4) by (simp add: findOne_save_new c_def)
  have fresh: "d \<notin> set (otps s)"
    unfolding d_def using assms(1) by (rule new_OTP_fresh)
  have first: "validate_otp s1 v =
      \<lparr>res = OtpValid, sendMessage = None, after = s1\<lparr>otps := remove1 d (otps s1)\<rparr>\<rparr>"
    unfolding v_def using ok1 assms(3) c found by (rule validate_otp_consumes)
  have restored: "remove1 d (otps s1) = otps s"
    using fresh by (simp add: s1_def save_otps remove1_append_new)
  have "findOne p c (s1\<lparr>otps := otps s\<rparr>) = None"
    using assms(4) by (simp add: findOne_def c_def)
  then have second: "res (validate_otp (s1\<lparr>otps := otps s\<rparr>) v) = InvalidOrExpiredOtp"
    using assms(3) c by (simp add: v_def validate_otp_not_found)
  show ?thesis
    using fresh second by (simp add: sent first restored c_def [symmetric] d_def [symmetric] v_def [symmetric])
qed

subsection \<open>Validation and expiry\<close>

text \<open>
  C1: a validation of \<open>(phoneNumber, code)\<close> should succeed only while the current time
  is before \<open>createdAt + 300 s\<close>, whether or not the record has been purged. The schema
  says so itself (\<open>expires: 300\<close>, "OTP expires after 5 minutes"), but the lookup of the
  handler compares no time, and the code does not keep the property: a code is issued at
  time 0 and 301 seconds pass in which the TTL task does not run; the record is expired
  and still stored, and its validation answers "OTP is valid". Only after a run of the
  TTL task does the same validation answer "Invalid OTP or OTP expired".
\<close>

theorem C1_expired_unpurged_still_valid:
  "otps (tick 301000 (after (send_otp
       \<lparr>isClientReady = True, otps = [], now = 0, next_id = 0\<rparr>
       \<lparr>body_phoneNumber = Some ''1000000000'', body_otp = None\<rparr> (1 / 2) Resolved)))
     = [\<lparr>doc_id = 0, phoneNumber = ''1000000000'', otp = ''550000'', createdAt = 0\<rparr>]
   \<and> now (tick 301000 (after (send_otp
       \<lparr>isClientReady = True, otps = [], now = 0, next_id = 0\<rparr>
       \<lparr>body_phoneNumber = Some ''1000000000'', body_otp = None\<rparr> (1 / 2) Resolved)))
     = 301000
   \<and> expired 301000
       \<lparr>doc_id = 0, phoneNumber = ''1000000000'', otp = ''550000'', createdAt = 0\<rparr>
   \<and> res (validate_otp
       (tick 301000 (after (send_otp
         \<lparr>isClientReady = True, otps = [], now = 0, next_id = 0\<rparr>
         \<lparr>body_phoneNumber = Some ''1000000000'', body_otp = None\<rparr> (1 / 2) Resolved)))
       \<lparr>body_phoneNumber = Some ''1000000000'', body_otp = Some ''550000''\<rparr>)
     = OtpValid
   \<and> res (validate_otp
       (ttl_purge (tick 301000 (after (send_otp
         \<lparr>isClientReady = True, otps = [], now = 0, next_id = 0\<rparr>
         \<lparr>body_phoneNumber = Some ''1000000000'', body_otp = None\<rparr> (1 / 2) Resolved))))
       \<lparr>body_phoneNumber = Some ''1000000000'', body_otp = Some ''550000''\<rparr>)
     = InvalidOrExpiredOtp"
  by (simp add: send_otp_def validate_otp_def findOne_def tick_def save_def new_OTP_def
      ttl_purge_def expired_def expires_def generate_otp_half responses Let_def)

subsection \<open>Single use\<close>

text \<open>
  C2: whenever a validation finds a matching record, it answers success and the record
  is gone from the collection it leaves. So after one successful issue for \<open>p\<close> that
  generated the code \<open>c\<close> (no other record for \<open>p\<close> holds \<open>c\<close>), the first validation
  of \<open>(p, c)\<close> succeeds and the one right after it fails with \<open>InvalidOrExpiredOtp\<close>.
\<close>

theorem C2_single_use:
  assumes "collection_ok s" and "p \<noteq> []"
  shows "(\<forall>c d. c \<noteq> [] \<and> findOne p c s = Some d \<longrightarrow>
            res (validate_otp s \<lparr>body_phoneNumber = Some p, body_otp = Some c\<rparr>) = OtpValid
          \<and> d \<notin> set (otps (after
                (validate_otp s \<lparr>body_phoneNumber = Some p, body_otp = Some c\<rparr>))))
       \<and> (isClientReady s \<and> findOne p (generate_otp random) s = None \<longrightarrow>
            res (send_otp s \<lparr>body_phoneNumber = Some p, body_otp = x\<rparr> random Resolved) = OtpSent
          \<and> res (validate_otp
              (after (send_otp s \<lparr>body_phoneNumber = Some p, body_otp = x\<rparr> random Resolved))
              \<lparr>body_phoneNumber = Some p, body_otp = Some (generate_otp random)\<rparr>) = OtpValid
          \<and> res (validate_otp
              (after (validate_otp
                 (after (send_otp s \<lparr>body_phoneNumber = Some p, body_otp = x\<rparr> random Resolved))
                 \<lparr>body_phoneNumber = Some p, body_otp = Some (generate_otp random)\<rparr>))
              \<lparr>body_phoneNumber = Some p, body_otp = Some (generate_otp random)\<rparr>)
            = InvalidOrExpiredOtp)"
proof (intro conjI allI impI)
  fix c d
  assume a: "c \<noteq> [] \<and> findOne p c s = Some d"
  then have "c \<noteq> []" "findOne p c s = Some d" by simp_all
  note v = validate_otp_consumes [OF assms(1,2) this]
  from v show "res (validate_otp s \<lparr>body_phoneNumber = Some p, body_otp = Some c\<rparr>) = OtpValid"
    by simp
  from collection_ok_distinct [OF assms(1)]
  show "d \<notin> set (otps (after (validate_otp s \<lparr>body_phoneNumber = Some p, body_otp = Some c\<rparr>)))"
    by (simp add: v)
next
  assume a: "isClientReady s \<and> findOne p (generate_otp random) s = None"
  then have h: "isClientReady s" "findOne p (generate_otp random) s = None" by simp_all
  note r = issue_validate_twice [OF assms(1) h(1) assms(2) h(2), of x]
  from r show "res (send_otp s \<lparr>body_phoneNumber = Some p, body_otp = x\<rparr> random Resolved) = OtpSent"
    by blast
  from r show "res (validate_otp
              (after (send_otp s \<lparr>body_phoneNumber = Some p, body_otp = x\<rparr> random Resolved))
              \<lparr>body_phoneNumber = Some p, body_otp = Some (generate_otp random)\<rparr>) = OtpValid"
    by blast
  from r show "res (validate_otp
              (after (validate_otp
                 (after (send_otp s \<lparr>body_phoneNumber = Some p, body_otp = x\<rparr> random Resolved))
                 \<lparr>body_phoneNumber = Some p, body_otp = Some (generate_otp random)\<rparr>))
              \<lparr>body_phoneNumber = Some p, body_otp = Some (generate_otp random)\<rparr>)
            = InvalidOrExpiredOtp"
    by blast
qed

text \<open>
  C2 at an empty collection, with \<open>Math.random() = 0.5\<close>.
\<close>

theorem C2_single_use_witness:
  "collection_ok \<lparr>isClientReady = True, otps = [], now = 0, next_id = 0\<rparr>
   \<and> isClientReady \<lparr>isClientReady = True, otps = [], now = 0, next_id = 0\<rparr>
   \<and> ''1000000000'' \<noteq> []
   \<and> findOne ''1000000000'' (generate_otp (1 / 2))
         \<lparr>isClientReady = True, otps = [], now = 0, next_id = 0\<rparr> = None
   \<and> generate_otp (1 / 2) = ''550000''
   \<and> res (send_otp \<lparr>isClientReady = True, otps = [], now = 0, next_id = 0\<rparr>
            \<lparr>body_phoneNumber = Some ''1000000000'', body_otp = None\<rparr> (1 / 2) Resolved)
       = OtpSent
   \<and> res (validate_otp
            (after (send_otp \<lparr>isClientReady = True, otps = [], now = 0, next_id = 0\<rparr>
               \<lparr>body_phoneNumber = Some ''1000000000'', body_otp = None\<rparr> (1 / 2) Resolved))
            \<lparr>body_phoneNumber = Some ''1000000000'', body_otp = Some (generate_otp (1 / 2))\<rparr>)
       = OtpValid
   \<and> res (validate_otp
            (after (validate_otp
               (after (send_otp \<lparr>isClientReady = True, otps = [], now = 0, next_id = 0\<rparr>
                  \<lparr>body_phoneNumber = Some ''1000000000'', body_otp = None\<rparr> (1 / 2) Resolved))
               \<lparr>body_phoneNumber = Some ''1000000000'', body_otp = Some (generate_otp (1 / 2))\<rparr>))
            \<lparr>body_phoneNumber = Some ''1000000000'', body_otp = Some (generate_otp (1 / 2))\<rparr>)
       = InvalidOrExpiredOtp"
proof -
  have h: "collection_ok \<lparr>isClientReady = True, otps = [], now = 0, next_id = 0\<rparr>"
    "''1000000000'' \<noteq> []"
    by (simp_all add: collection_ok_def)
  have g: "isClientReady \<lparr>isClientReady = True, otps = [], now = 0, next_id = 0\<rparr>"
    "findOne ''1000000000'' (generate_otp (1 / 2))
       \<lparr>isClientReady = True, otps = [], now = 0, next_id = 0\<rparr> = None"
    by (simp_all add: findOne_def)
  from C2_single_use [OF h, of "1 / 2" None] h g generate_otp_half show ?thesis by blast
qed

text \<open>
  C9: a successful validation removes the matched record and nothing else. The other
  records, those of the same phone number among them, stay as they were and in their
  order; and when another record holds the same phone number and code, the next
  validation of that pair succeeds again.
\<close>

theorem C9_validate_consumes_one:
  assumes "collection_ok s" and "p \<noteq> []" and "c \<noteq> []" and "findOne p c s = Some d"
  shows "validate_otp s \<lparr>body_phoneNumber = Some p, body_otp = Some c\<rparr> =
           \<lparr>res = OtpValid, sendMessage = None, after = s\<lparr>otps := remove1 d (otps s)\<rparr>\<rparr>
       \<and> Suc (length (remove1 d (otps s))) = length (otps s)
       \<and> set (remove1 d (otps s)) = set (otps s) - {d}
       \<and> (list_ex (\<lambda>d'. d' \<noteq> d \<and> phoneNumber d' = p \<and> otp d' = c) (otps s) \<longrightarrow>
            res (validate_otp
                   (after (validate_otp s \<lparr>body_phoneNumber = Some p, body_otp = Some c\<rparr>))
                   \<lparr>body_phoneNumber = Some p, body_otp = Some c\<rparr>) = OtpValid)"
proof -
  note first = validate_otp_consumes [OF assms]
  from findOne_Some_props [OF assms(4)] have d: "d \<in> set (otps s)" by simp
  from collection_ok_distinct [OF assms(1)] have dist: "distinct (otps s)" .
  from d have len: "Suc (length (remove1 d (otps s))) = length (otps s)"
    by (simp add: length_remove1) (cases "otps s"; simp)
  from dist have rest: "set (remove1 d (otps s)) = set (otps s) - {d}"
    by (rule set_remove1_eq)
  have again: "res (validate_otp (s\<lparr>otps := remove1 d (otps s)\<rparr>)
                 \<lparr>body_phoneNumber = Some p, body_otp = Some c\<rparr>) = OtpValid"
    if "list_ex (\<lambda>d'. d' \<noteq> d \<and> phoneNumber d' = p \<and> otp d' = c) (otps s)"
  proof -
    from that rest have "\<exists>d'\<in>set (remove1 d (otps s)). phoneNumber d' = p \<and> otp d' = c"
      by (auto simp: list_ex_iff)
    with validate_otp_valid_iff [OF assms(2,3), of "s\<lparr>otps := remove1 d (otps s)\<rparr>"]
    show ?thesis by simp
  qed
  from first len rest again show ?thesis by simp
qed

text \<open>
  C9 at a collection with two records of the same phone number and code.
\<close>

theorem C9_validate_consumes_one_witness:
  "collection_ok
     \<lparr>isClientReady = True,
      otps = [\<lparr>doc_id = 0, phoneNumber = ''1000000000'', otp = ''550000'', createdAt = 0\<rparr>,
              \<lparr>doc_id = 1, phoneNumber = ''1000000000'', otp = ''550000'', createdAt = 7\<rparr>,
              \<lparr>doc_id = 2, phoneNumber = ''1000000000'', otp = ''123456'', createdAt = 9\<rparr>],
      now = 10, next_id = 3\<rparr>
   \<and> ''1000000000'' \<noteq> [] \<and> ''550000'' \<noteq> []
   \<and> findOne ''1000000000'' ''550000''
     \<lparr>isClientReady = True,
      otps = [\<lparr>doc_id = 0, phoneNumber = ''1000000000'', otp = ''550000'', createdAt = 0\<rparr>,
              \<lparr>doc_id = 1, phoneNumber = ''1000000000'', otp = ''550000'', createdAt = 7\<rparr>,
              \<lparr>doc_id = 2, phoneNumber = ''1000000000'', otp = ''123456'', createdAt = 9\<rparr>],
      now = 10, next_id = 3\<rparr>
     = Some \<lparr>doc_id = 0, phoneNumber = ''1000000000'', otp = ''550000'', createdAt = 0\<rparr>
   \<and> otps (after (validate_otp
     \<lparr>isClientReady = True,
      otps = [\<lparr>doc_id = 0, phoneNumber = ''1000000000'', otp = ''550000'', createdAt = 0\<rparr>,
              \<lparr>doc_id = 1, phoneNumber = ''1000000000'', otp = ''550000'', createdAt = 7\<rparr>,
              \<lparr>doc_id = 2, phoneNumber = ''1000000000'', otp = ''123456'', createdAt = 9\<rparr>],
      now = 10, next_id = 3\<rparr>
     \<lparr>body_phoneNumber = Some ''1000000000'', body_otp = Some ''550000''\<rparr>))
     = [\<lparr>doc_id = 1, phoneNumber = ''1000000000'', otp = ''550000'', createdAt = 7\<rparr>,
        \<lparr>doc_id = 2, phoneNumber = ''1000000000'', otp = ''123456'', createdAt = 9\<rparr>]
   \<and> res (validate_otp (after (validate_otp
     \<lparr>isClientReady = True,
      otps = [\<lparr>doc_id = 0, phoneNumber = ''1000000000'', otp = ''550000'', createdAt = 0\<rparr>,
              \<lparr>doc_id = 1, phoneNumber = ''1000000000'', otp = ''550000'', createdAt = 7\<rparr>,
              \<lparr>doc_id = 2, phoneNumber = ''1000000000'', otp = ''123456'', createdAt = 9\<rparr>],
      now = 10, next_id = 3\<rparr>
     \<lparr>body_phoneNumber = Some ''1000000000'', body_otp = Some ''550000''\<rparr>))
     \<lparr>body_phoneNumber = Some ''1000000000'', body_otp = Some ''550000''\<rparr>) = OtpValid"
proof -
  have h: "collection_ok
     \<lparr>isClientReady = True,
      otps = [\<lparr>doc_id = 0, phoneNumber = ''1000000000'', otp = ''550000'', createdAt = 0\<rparr>,
              \<lparr>doc_id = 1, phoneNumber = ''1000000000'', otp = ''550000'', createdAt = 7\<rparr>,
              \<lparr>doc_id = 2, phoneNumber = ''1000000000'', otp = ''123456'', createdAt = 9\<rparr>],
      now = 10, next_id = 3\<rparr>"
    "''1000000000'' \<noteq> []" "''550000'' \<noteq> []"
    "findOne ''1000000000'' ''550000''
     \<lparr>isClientReady = True,
      otps = [\<lparr>doc_id = 0, phoneNumber = ''1000000000'', otp = ''550000'', createdAt = 0\<rparr>,
              \<lparr>doc_id = 1, phoneNumber = ''1000000000'', otp = ''550000'', createdAt = 7\<rparr>,
              \<lparr>doc_id = 2, phoneNumber = ''1000000000'', otp = ''123456'', createdAt = 9\<rparr>],
      now = 10, next_id = 3\<rparr>
     = Some \<lparr>doc_id = 0, phoneNumber = ''1000000000'', otp = ''550000'', createdAt = 0\<rparr>"
    by (simp_all add: collection_ok_def findOne_def)
  let ?s = "\<lparr>isClientReady = True,
      otps = [\<lparr>doc_id = 0, phoneNumber = ''1000000000'', otp = ''550000'', createdAt = 0\<rparr>,
              \<lparr>doc_id = 1, phoneNumber = ''1000000000'', otp = ''550000'', createdAt = 7\<rparr>,
              \<lparr>doc_id = 2, phoneNumber = ''1000000000'', otp = ''123456'', createdAt = 9\<rparr>],
      now = 10, next_id = 3\<rparr>"
  let ?v = "\<lparr>body_phoneNumber = Some ''1000000000'', body_otp = Some ''550000''\<rparr>"
  let ?d = "\<lparr>doc_id = 0, phoneNumber = ''1000000000'', otp = ''550000'', createdAt = 0\<rparr>"
  note r = C9_validate_consumes_one [OF h]
  have dup: "list_ex (\<lambda>d'. d' \<noteq> ?d \<and> phoneNumber d' = ''1000000000'' \<and> otp d' = ''550000'') (otps ?s)"
    by simp
  from r dup have again: "res (validate_otp (after (validate_otp ?s ?v)) ?v) = OtpValid"
    by blast
  from r have eq: "validate_otp ?s ?v =
      \<lparr>res = OtpValid, sendMessage = None, after = ?s\<lparr>otps := remove1 ?d (otps ?s)\<rparr>\<rparr>"
    by blast
  have "otps (after (validate_otp ?s ?v))
     = [\<lparr>doc_id = 1, phoneNumber = ''1000000000'', otp = ''550000'', createdAt = 7\<rparr>,
        \<lparr>doc_id = 2, phoneNumber = ''1000000000'', otp = ''123456'', createdAt = 9\<rparr>]"
    by (subst eq) simp
  with again h show ?thesis by blast
qed

subsection \<open>Issuing\<close>

text \<open>
  C3 as stated fails: the collection holds a record of an earlier issue, the client is
  not ready, and the request is refused; the validation of the earlier code succeeds.
\<close>

theorem C3_not_ready_counterexample:
  "\<not> isClientReady
       \<lparr>isClientReady = False,
        otps = [\<lparr>doc_id = 0, phoneNumber = ''1000000000'', otp = ''123456'', createdAt = 0\<rparr>],
        now = 1000, next_id = 1\<rparr>
   \<and> res (send_otp
       \<lparr>isClientReady = False,
        otps = [\<lparr>doc_id = 0, phoneNumber = ''1000000000'', otp = ''123456'', createdAt = 0\<rparr>],
        now = 1000, next_id = 1\<rparr>
       \<lparr>body_phoneNumber = Some ''1000000000'', body_otp = None\<rparr> (1 / 2) Resolved)
     = ChannelNotReady
   \<and> res (validate_otp
       (after (send_otp
         \<lparr>isClientReady = False,
          otps = [\<lparr>doc_id = 0, phoneNumber = ''1000000000'', otp = ''123456'', createdAt = 0\<rparr>],
          now = 1000, next_id = 1\<rparr>
         \<lparr>body_phoneNumber = Some ''1000000000'', body_otp = None\<rparr> (1 / 2) Resolved))
       \<lparr>body_phoneNumber = Some ''1000000000'', body_otp = Some ''123456''\<rparr>)
     = OtpValid"
  by (simp add: send_otp_def validate_otp_def findOne_def responses)

text \<open>
  C3, amended: while the client is not ready, every issue request is answered
  \<open>ChannelNotReady\<close>, sends nothing and leaves the server as it was, so every later
  validation answers what it would have answered without the request; when no record of
  the phone number was stored before, its validation fails for every code.
\<close>

theorem C3_not_ready:
  assumes "\<not> isClientReady s"
  shows "res (send_otp s body random sending) = ChannelNotReady
       \<and> sendMessage (send_otp s body random sending) = None
       \<and> after (send_otp s body random sending) = s
       \<and> validate_otp (after (send_otp s body random sending)) body' = validate_otp s body'
       \<and> (list_all (\<lambda>d. phoneNumber d \<noteq> p) (otps s) \<longrightarrow>
            res (validate_otp (after (send_otp s body random sending))
                   \<lparr>body_phoneNumber = Some p, body_otp = c\<rparr>) \<noteq> OtpValid)"
  using assms by (simp add: send_otp_not_ready validate_otp_unknown_phoneNumber)

text \<open>
  C3 at an empty collection.
\<close>

theorem C3_not_ready_witness:
  "\<not> isClientReady \<lparr>isClientReady = False, otps = [], now = 0, next_id = 0\<rparr>
   \<and> list_all (\<lambda>d. phoneNumber d \<noteq> ''1000000000'')
         (otps \<lparr>isClientReady = False, otps = [], now = 0, next_id = 0\<rparr>)
   \<and> res (send_otp \<lparr>isClientReady = False, otps = [], now = 0, next_id = 0\<rparr>
            \<lparr>body_phoneNumber = Some ''1000000000'', body_otp = None\<rparr> (1 / 2) Resolved)
       = ChannelNotReady
   \<and> res (validate_otp
            (after (send_otp \<lparr>isClientReady = False, otps = [], now = 0, next_id = 0\<rparr>
               \<lparr>body_phoneNumber = Some ''1000000000'', body_otp = None\<rparr> (1 / 2) Resolved))
            \<lparr>body_phoneNumber = Some ''1000000000'', body_otp = Some ''123456''\<rparr>)
       \<noteq> OtpValid"
proof -
  have h: "\<not> isClientReady \<lparr>isClientReady = False, otps = [], now = 0, next_id = 0\<rparr>"
    "list_all (\<lambda>d. phoneNumber d \<noteq> ''1000000000'')
       (otps \<lparr>isClientReady = False, otps = [], now = 0, next_id = 0\<rparr>)"
    by simp_all
  from C3_not_ready [OF h(1),
      of "\<lparr>body_phoneNumber = Some ''1000000000'', body_otp = None\<rparr>" "1 / 2" Resolved
      "\<lparr>body_phoneNumber = None, body_otp = None\<rparr>" "''1000000000''" "Some ''123456''"] h
  show ?thesis by blast
qed

text \<open>
  C4 as stated fails: the handler tests the flag before it reads the body, so a request
  without a phone number is answered \<open>ChannelNotReady\<close> while the client is not ready.
\<close>

theorem C4_not_ready_counterexample:
  "body_phoneNumber \<lparr>body_phoneNumber = None, body_otp = None\<rparr> = None
   \<and> res (send_otp \<lparr>isClientReady = False, otps = [], now = 0, next_id = 0\<rparr>
            \<lparr>body_phoneNumber = None, body_otp = None\<rparr> (1 / 2) Resolved)
       = ChannelNotReady
   \<and> res (send_otp \<lparr>isClientReady = False, otps = [], now = 0, next_id = 0\<rparr>
            \<lparr>body_phoneNumber = None, body_otp = None\<rparr> (1 / 2) Resolved)
       \<noteq> InvalidInput"
  by (simp add: send_otp_def responses)

text \<open>
  C4, amended: an issue request whose phone number is missing or empty is answered
  \<open>InvalidInput\<close> (400, "Phone number is required") when the client is ready, and
  \<open>ChannelNotReady\<close> when it is not; in both cases nothing is stored or sent.
\<close>

theorem C4_phoneNumber_required:
  assumes "body_phoneNumber body = None \<or> body_phoneNumber body = Some []"
  shows "res (send_otp s body random sending) =
           (if isClientReady s then InvalidInput else ChannelNotReady)
       \<and> sendMessage (send_otp s body random sending) = None
       \<and> after (send_otp s body random sending) = s"
  using assms by (simp add: send_otp_not_ready send_otp_no_phoneNumber)

text \<open>
  C4 at an empty phone number, with the client ready and not ready.
\<close>

theorem C4_phoneNumber_required_witness:
  "body_phoneNumber \<lparr>body_phoneNumber = Some [], body_otp = None\<rparr> = Some []
   \<and> res (send_otp \<lparr>isClientReady = True, otps = [], now = 0, next_id = 0\<rparr>
            \<lparr>body_phoneNumber = Some [], body_otp = None\<rparr> (1 / 2) Resolved)
       = InvalidInput
   \<and> res (send_otp \<lparr>isClientReady = False, otps = [], now = 0, next_id = 0\<rparr>
            \<lparr>body_phoneNumber = Some [], body_otp = None\<rparr> (1 / 2) Resolved)
       = ChannelNotReady"
  using C4_phoneNumber_required [of "\<lparr>body_phoneNumber = Some [], body_otp = None\<rparr>"
      "\<lparr>isClientReady = True, otps = [], now = 0, next_id = 0\<rparr>" "1 / 2" Resolved]
    C4_phoneNumber_required [of "\<lparr>body_phoneNumber = Some [], body_otp = None\<rparr>"
      "\<lparr>isClientReady = False, otps = [], now = 0, next_id = 0\<rparr>" "1 / 2" Resolved]
  by simp

text \<open>
  C7: a successful issue appends one new record, which was not in the collection, and
  leaves every earlier record in place; each earlier record still validates.
\<close>

theorem C7_issue_additive:
  assumes "collection_ok s"
    and "res (send_otp s body random sending) = OtpSent"
  shows "\<exists>p. body_phoneNumber body = Some p
           \<and> otps (after (send_otp s body random sending)) =
               otps s @ [new_OTP s p (generate_otp random)]
           \<and> new_OTP s p (generate_otp random) \<notin> set (otps s)
           \<and> list_all (\<lambda>d. res (validate_otp (after (send_otp s body random sending))
                                 \<lparr>body_phoneNumber = Some (phoneNumber d), body_otp = Some (otp d)\<rparr>)
                              = OtpValid) (otps s)"
proof -
  from assms(2) have ready: "isClientReady s"
    by (auto simp: send_otp_def responses split: if_splits)
  with assms(2) obtain p where p: "body_phoneNumber body = Some p" "p \<noteq> []"
    by (auto simp: send_otp_def responses split: if_splits option.splits)
  from send_otp_stored [OF ready p] have
    stored: "otps (after (send_otp s body random sending)) = otps s @ [new_OTP s p (generate_otp random)]"
    by (simp add: save_otps)
  have "res (validate_otp (after (send_otp s body random sending))
               \<lparr>body_phoneNumber = Some (phoneNumber d), body_otp = Some (otp d)\<rparr>) = OtpValid"
    if "d \<in> set (otps s)" for d
  proof -
    from that assms(1) have "phoneNumber d \<noteq> []" "otp d \<noteq> []"
      by (auto simp: collection_ok_def list_all_iff)
    from validate_otp_valid_iff [OF this] that stored show ?thesis by auto
  qed
  then have "list_all (\<lambda>d. res (validate_otp (after (send_otp s body random sending))
                                 \<lparr>body_phoneNumber = Some (phoneNumber d), body_otp = Some (otp d)\<rparr>)
                              = OtpValid) (otps s)"
    by (simp add: list_all_iff)
  with p(1) stored new_OTP_fresh [OF assms(1)] show ?thesis by blast
qed

text \<open>
  C7 at a collection that holds an earlier record of the same phone number.
\<close>

theorem C7_issue_additive_witness:
  "collection_ok
     \<lparr>isClientReady = True,
      otps = [\<lparr>doc_id = 0, phoneNumber = ''1000000000'', otp = ''123456'', createdAt = 0\<rparr>],
      now = 5000, next_id = 1\<rparr>
   \<and> res (send_otp
       \<lparr>isClientReady = True,
        otps = [\<lparr>doc_id = 0, phoneNumber = ''1000000000'', otp = ''123456'', createdAt = 0\<rparr>],
        now = 5000, next_id = 1\<rparr>
       \<lparr>body_phoneNumber = Some ''1000000000'', body_otp = None\<rparr> (1 / 2) Resolved) = OtpSent
   \<and> otps (after (send_otp
       \<lparr>isClientReady = True,
        otps = [\<lparr>doc_id = 0, phoneNumber = ''1000000000'', otp = ''123456'', createdAt = 0\<rparr>],
        now = 5000, next_id = 1\<rparr>
       \<lparr>body_phoneNumber = Some ''1000000000'', body_otp = None\<rparr> (1 / 2) Resolved))
     = [\<lparr>doc_id = 0, phoneNumber = ''1000000000'', otp = ''123456'', createdAt = 0\<rparr>,
        \<lparr>doc_id = 1, phoneNumber = ''1000000000'', otp = ''550000'', createdAt = 5000\<rparr>]
   \<and> res (validate_otp (after (send_otp
       \<lparr>isClientReady = True,
        otps = [\<lparr>doc_id = 0, phoneNumber = ''1000000000'', otp = ''123456'', createdAt = 0\<rparr>],
        now = 5000, next_id = 1\<rparr>
       \<lparr>body_phoneNumber = Some ''1000000000'', body_otp = None\<rparr> (1 / 2) Resolved))
       \<lparr>body_phoneNumber = Some ''1000000000'', body_otp = Some ''123456''\<rparr>) = OtpValid"
proof -
  have h: "collection_ok
     \<lparr>isClientReady = True,
      otps = [\<lparr>doc_id = 0, phoneNumber = ''1000000000'', otp = ''123456'', createdAt = 0\<rparr>],
      now = 5000, next_id = 1\<rparr>"
    "res (send_otp
       \<lparr>isClientReady = True,
        otps = [\<lparr>doc_id = 0, phoneNumber = ''1000000000'', otp = ''123456'', createdAt = 0\<rparr>],
        now = 5000, next_id = 1\<rparr>
       \<lparr>body_phoneNumber = Some ''1000000000'', body_otp = None\<rparr> (1 / 2) Resolved) = OtpSent"
    by (simp_all add: collection_ok_def send_otp_def Let_def responses)
  from C7_issue_additive [OF h] h show ?thesis
    by (simp add: new_OTP_def generate_otp_half)
qed

text \<open>
  C8: when the dispatch is rejected, the answer is \<open>RecipientNotRegistered\<close> if the
  error message contains "not registered" and \<open>DispatchFailed\<close> otherwise; in both
  cases the record saved before the dispatch stays in the collection.
\<close>

theorem C8_dispatch_failure:
  assumes "isClientReady s" and "body_phoneNumber body = Some p" and "p \<noteq> []"
  shows "res (send_otp s body random (Rejected message)) =
           (if str_includes message ''not registered'' then RecipientNotRegistered
            else DispatchFailed)
       \<and> otps (after (send_otp s body random (Rejected message))) =
           otps s @ [new_OTP s p (generate_otp random)]"
  using send_otp_res [OF assms, of random "Rejected message"]
    send_otp_stored [OF assms, of random "Rejected message"]
  by (simp add: save_otps)

text \<open>
  C8 at two error messages.
\<close>

theorem C8_dispatch_failure_witness:
  "isClientReady \<lparr>isClientReady = True, otps = [], now = 0, next_id = 0\<rparr>
   \<and> body_phoneNumber \<lparr>body_phoneNumber = Some ''1000000000'', body_otp = None\<rparr>
       = Some ''1000000000''
   \<and> ''1000000000'' \<noteq> []
   \<and> res (send_otp \<lparr>isClientReady = True, otps = [], now = 0, next_id = 0\<rparr>
            \<lparr>body_phoneNumber = Some ''1000000000'', body_otp = None\<rparr> (1 / 2)
            (Rejected ''number not registered'')) = RecipientNotRegistered
   \<and> res (send_otp \<lparr>isClientReady = True, otps = [], now = 0, next_id = 0\<rparr>
            \<lparr>body_phoneNumber = Some ''1000000000'', body_otp = None\<rparr> (1 / 2)
            (Rejected ''timeout'')) = DispatchFailed
   \<and> otps (after (send_otp \<lparr>isClientReady = True, otps = [], now = 0, next_id = 0\<rparr>
            \<lparr>body_phoneNumber = Some ''1000000000'', body_otp = None\<rparr> (1 / 2)
            (Rejected ''number not registered'')))
       = [\<lparr>doc_id = 0, phoneNumber = ''1000000000'', otp = ''550000'', createdAt = 0\<rparr>]"
proof -
  have h: "isClientReady \<lparr>isClientReady = True, otps = [], now = 0, next_id = 0\<rparr>"
    "body_phoneNumber \<lparr>body_phoneNumber = Some ''1000000000'', body_otp = None\<rparr>
       = Some ''1000000000''"
    "''1000000000'' \<noteq> []"
    by simp_all
  have m: "str_includes ''number not registered'' ''not registered''"
    "\<not> str_includes ''timeout'' ''not registered''"
    by simp_all
  from C8_dispatch_failure [OF h, of "1 / 2" "''number not registered''"]
    C8_dispatch_failure [OF h, of "1 / 2" "''timeout''"] h m
  show ?thesis by (simp add: new_OTP_def generate_otp_half)
qed

text \<open>
  C10: two runs of the issue handler that differ only in the value of \<open>Math.random()\<close>,
  hence in the code, send the same response; the response is one of five constants.
\<close>

theorem C10_response_independent_of_code:
  "res (send_otp s body random sending) = res (send_otp s body random' sending)
   \<and> res (send_otp s body random sending)
       \<in> {OtpSent, ChannelNotReady, InvalidInput, RecipientNotRegistered, DispatchFailed}"
  by (simp add: send_otp_def Let_def responses split: option.split sendMessage_result.split)

end
